theory Spec2Isabelle
  imports Complex_Main "HOL-Library.AList"
begin

section \<open>Exceptions\<close>

text \<open>
  Every \<open>raise\<close> of the Python source, and every exception of the libraries it calls,
  is a value: a computation returns \<open>exn + 'a\<close>, with \<open>Inl\<close> for the exception.
  \<open>KeyError\<close> is what a dictionary lookup and a column lookup raise,
  \<open>NotImplementedError\<close> what the abstract hooks of \<open>BaseEstimator\<close> raise,
  \<open>ValueError\<close> what numpy, the data loader and the dataset operations raise;
  \<open>LibraryError\<close> stands for any other exception of a hook or an external library,
  with the name of its class.
\<close>

datatype exn =
    KeyError string
  | NotImplementedError string
  | ValueError string
  | LibraryError string string

fun exn_class :: "exn \<Rightarrow> string" where
  "exn_class (KeyError _) = ''KeyError''"
| "exn_class (NotImplementedError _) = ''NotImplementedError''"
| "exn_class (ValueError _) = ''ValueError''"
| "exn_class (LibraryError c _) = c"

definition raises :: "exn + 'a \<Rightarrow> string \<Rightarrow> bool" where
  "raises r c = (case r of Inl e \<Rightarrow> exn_class e = c | Inr _ \<Rightarrow> False)"

section \<open>estimators/base.py: the model-type table\<close>

datatype model_class = BertDotBCEModel | BertDotPairwiseRankingModel

definition MODEL_TYPES :: "(string \<times> model_class) list" where
  "MODEL_TYPES =
     [(''bert-dot-bce'', BertDotBCEModel),
      (''bert-dot-pairwise-ranking'', BertDotPairwiseRankingModel)]"

section \<open>Datasets\<close>

text \<open>
  A split of a dataset is a table: a row count and named columns, every column holding
  one cell per row. A dataset is a dictionary of splits, in insertion order.
\<close>

record 'c split =
  num_rows :: nat
  columns :: "(string \<times> 'c list) list"

type_synonym 'c dataset = "(string \<times> 'c split) list"

definition wf_split :: "'c split \<Rightarrow> bool" where
  "wf_split s =
     (distinct (map fst (columns s)) \<and>
      list_all (\<lambda>cv. length (snd cv) = num_rows s) (columns s))"

text \<open>\<open>dataset[name]\<close>: the split, or KeyError.\<close>

definition get_split :: "'c dataset \<Rightarrow> string \<Rightarrow> exn + 'c split" where
  "get_split dataset name =
     (case map_of dataset name of
        None \<Rightarrow> Inl (KeyError name)
      | Some s \<Rightarrow> Inr s)"

text \<open>\<open>split[column]\<close>: the cells of the column, or KeyError.\<close>

definition get_column :: "'c split \<Rightarrow> string \<Rightarrow> exn + 'c list" where
  "get_column s name =
     (case map_of (columns s) name of
        None \<Rightarrow> Inl (KeyError name)
      | Some cells \<Rightarrow> Inr cells)"

definition extract_ids :: "'c dataset \<Rightarrow> string \<Rightarrow> exn + 'c list" where
  "extract_ids dataset id_column =
     (case get_split dataset ''test'' of
        Inl e \<Rightarrow> Inl e
      | Inr test \<Rightarrow> get_column test id_column)"

section \<open>estimators/base.py: the estimator\<close>

text \<open>
  The keyword arguments of \<open>BaseEstimator.__init__\<close>. An argument whose default is
  \<open>None\<close> is an option. The learning rate is a real number; the metric function and
  the model are opaque (\<open>'f\<close>, \<open>'m\<close>).
\<close>

record 'f estimator_args =
  arg_model_name_or_path :: string
  arg_model_type :: string
  arg_train_steps :: int
  arg_num_epochs :: int
  arg_batch_size :: int
  arg_accum_steps :: int
  arg_lr :: real
  arg_metric_fn :: 'f
  arg_device :: "string option"
  arg_eval_batch_size :: "int option"
  arg_save_steps :: "int option"
  arg_continue_train :: bool
  arg_in_batch_neg :: bool

text \<open>
  The attributes of \<open>self\<close>, in the order \<open>__init__\<close> assigns them. The first nine are
  set before \<open>_load_model\<close> runs, so the model-loading hook sees exactly them. A name
  cannot start with an underscore here: \<open>eval_batch_size\<close>, \<open>save_strategy\<close>,
  \<open>save_steps\<close> and \<open>continue_train\<close> are the source's \<open>_eval_batch_size\<close>,
  \<open>_save_strategy\<close>, \<open>_save_steps\<close> and \<open>_continue_train\<close>, and the hooks
  \<open>load_model\<close>, \<open>load_dataset\<close>, \<open>save_model\<close> and \<open>save_inference_results\<close> are its
  \<open>_load_model\<close>, \<open>_load_dataset\<close>, \<open>_save_model\<close> and \<open>_save_inference_results\<close>.
\<close>

record 'f estimator_head =
  model_name_or_path :: string
  model_class :: model_class
  train_steps :: int
  num_epochs :: int
  batch_size :: int
  accum_steps :: int
  lr :: real
  in_batch_neg :: bool
  metric_fn :: 'f

record ('f, 'm) estimator = "'f estimator_head" +
  model :: 'm
  device :: string
  eval_batch_size :: int
  save_strategy :: string
  save_steps :: int
  continue_train :: bool

record TrainingArguments =
  ta_max_steps :: int
  ta_num_train_epochs :: int
  ta_per_device_train_batch_size :: int
  ta_per_device_eval_batch_size :: int
  ta_gradient_accumulation_steps :: int
  ta_learning_rate :: real
  ta_warmup_steps :: int
  ta_weight_decay :: real
  ta_logging_steps :: int
  ta_lr_scheduler_type :: string
  ta_evaluation_strategy :: string
  ta_eval_steps :: int
  ta_save_strategy :: string
  ta_save_steps :: int
  ta_output_dir :: string

record ('f, 'm, 'c) Trainer =
  tr_model :: 'm
  tr_args :: TrainingArguments
  tr_train_dataset :: "'c split"
  tr_eval_dataset :: "'c split"
  tr_compute_metrics :: 'f

text \<open>
  The four hooks a subclass overrides. Each reads \<open>self\<close> and acts on the world
  \<open>'w\<close> (files, logs), returning its result or an exception and the new world.
\<close>

record ('f, 'm, 'c, 'a, 'w) hooks =
  load_model :: "'f estimator_head \<Rightarrow> 'w \<Rightarrow> (exn + 'm) \<times> 'w"
  load_dataset ::
    "('f, 'm) estimator \<Rightarrow> string \<Rightarrow> string list option \<Rightarrow> 'w \<Rightarrow> (exn + 'c dataset) \<times> 'w"
  save_model ::
    "('f, 'm) estimator \<Rightarrow> ('f, 'm, 'c) Trainer \<Rightarrow> string \<Rightarrow> 'w \<Rightarrow> (exn + unit) \<times> 'w"
  save_inference_results ::
    "('f, 'm) estimator \<Rightarrow> 'a list list \<times> 'c list \<Rightarrow> string \<Rightarrow> 'w \<Rightarrow> (exn + unit) \<times> 'w"

text \<open>The hooks of \<open>BaseEstimator\<close> itself: each raises NotImplementedError.\<close>

definition base_hooks :: "('f, 'm, 'c, 'a, 'w) hooks" where
  "base_hooks =
     \<lparr>load_model = (\<lambda>self w. (Inl (NotImplementedError ''You need to implement this method''), w)),
      load_dataset = (\<lambda>self dataset_path torch_columns w.
         (Inl (NotImplementedError ''You need to implement this method''), w)),
      save_model = (\<lambda>self trainer model_out_dir w.
         (Inl (NotImplementedError ''You need to implement this method''), w)),
      save_inference_results = (\<lambda>self inference_res out_dir w.
         (Inl (NotImplementedError ''You need to implement this method''), w))\<rparr>"

text \<open>
  What the external frameworks do, as parameters: whether a GPU is there, the logger,
  the training driver (\<open>trainer.train\<close> changes the trainer and its model in place, also
  when it raises), device placement and evaluation mode of a model, and the model's
  \<open>get_embed\<close> on a batch of token ids and attention masks, which returns a
  two-dimensional array (a list of rows) or raises.
\<close>

record ('f, 'm, 'c, 'a, 'w) framework =
  cuda_is_available :: bool
  logger_info :: "string \<Rightarrow> 'w \<Rightarrow> 'w"
  trainer_train ::
    "('f, 'm, 'c) Trainer \<Rightarrow> bool \<Rightarrow> 'w \<Rightarrow> exn option \<times> ('f, 'm, 'c) Trainer \<times> 'w"
  trainer_save_state :: "('f, 'm, 'c) Trainer \<Rightarrow> 'w \<Rightarrow> (exn + unit) \<times> 'w"
  model_to :: "string \<Rightarrow> 'm \<Rightarrow> 'm"
  model_eval :: "'m \<Rightarrow> 'm"
  get_embed :: "'m \<Rightarrow> 'c list \<Rightarrow> 'c list \<Rightarrow> exn + 'a list list"

definition BaseEstimator_init ::
  "('f, 'm, 'c, 'a, 'w) hooks \<Rightarrow> ('f, 'm, 'c, 'a, 'w) framework \<Rightarrow> 'f estimator_args \<Rightarrow> 'w
     \<Rightarrow> (exn + ('f, 'm) estimator) \<times> 'w" where
  "BaseEstimator_init hooks fw args w =
     (case map_of MODEL_TYPES (arg_model_type args) of
        None \<Rightarrow> (Inl (KeyError (arg_model_type args)), w)
      | Some cls \<Rightarrow>
          let self0 = \<lparr>model_name_or_path = arg_model_name_or_path args,
                       model_class = cls,
                       train_steps = arg_train_steps args,
                       num_epochs = arg_num_epochs args,
                       batch_size = arg_batch_size args,
                       accum_steps = arg_accum_steps args,
                       lr = arg_lr args,
                       in_batch_neg = arg_in_batch_neg args,
                       metric_fn = arg_metric_fn args\<rparr>
          in (case load_model hooks self0 w of
                (Inl e, w1) \<Rightarrow> (Inl e, w1)
              | (Inr m, w1) \<Rightarrow>
                  (Inr (estimator_head.extend self0
                     \<lparr>model = m,
                      device = (case arg_device args of
                                  None \<Rightarrow> (if cuda_is_available fw then ''cuda'' else ''cpu'')
                                | Some d \<Rightarrow> d),
                      eval_batch_size = (case arg_eval_batch_size args of
                                           None \<Rightarrow> arg_batch_size args
                                         | Some b \<Rightarrow> b),
                      save_strategy = (case arg_save_steps args of
                                         None \<Rightarrow> ''epoch''
                                       | Some _ \<Rightarrow> ''steps''),
                      save_steps = (case arg_save_steps args of
                                      None \<Rightarrow> 0
                                    | Some n \<Rightarrow> n),
                      continue_train = arg_continue_train args\<rparr>), w1)))"


text \<open>
  The \<open>TrainingArguments(...)\<close> expression of \<open>fit\<close>: six fields come from \<open>self\<close>,
  the rest are constants of the source.
\<close>

definition fit_train_args :: "('f, 'm) estimator \<Rightarrow> TrainingArguments" where
  "fit_train_args self =
     \<lparr>ta_max_steps = train_steps self,
      ta_num_train_epochs = num_epochs self,
      ta_per_device_train_batch_size = batch_size self,
      ta_per_device_eval_batch_size = batch_size self,
      ta_gradient_accumulation_steps = accum_steps self,
      ta_learning_rate = lr self,
      ta_warmup_steps = 500,
      ta_weight_decay = 1 / 100,
      ta_logging_steps = 500,
      ta_lr_scheduler_type = ''constant'',
      ta_evaluation_strategy = ''steps'',
      ta_eval_steps = 5000,
      ta_save_strategy = save_strategy self,
      ta_save_steps = save_steps self,
      ta_output_dir = ''./tmp''\<rparr>"

text \<open>
  \<open>fit\<close> returns the exception it raised, if any, with \<open>self\<close> and the world as it
  left them. The model object of \<open>self\<close> is the one the trainer trains in place.
\<close>

definition fit ::
  "('f, 'm, 'c, 'a, 'w) hooks \<Rightarrow> ('f, 'm, 'c, 'a, 'w) framework \<Rightarrow> ('f, 'm) estimator
     \<Rightarrow> string \<Rightarrow> string \<Rightarrow> 'w \<Rightarrow> (exn + unit) \<times> ('f, 'm) estimator \<times> 'w" where
  "fit hooks fw self dataset_dir model_out_dir w =
     (case load_dataset hooks self dataset_dir None w of
        (Inl e, w1) \<Rightarrow> (Inl e, self, w1)
      | (Inr dataset, w1) \<Rightarrow>
          let train_args = fit_train_args self
          in (case get_split dataset ''train'' of
                Inl e \<Rightarrow> (Inl e, self, w1)
              | Inr train \<Rightarrow>
                  (case get_split dataset ''test'' of
                     Inl e \<Rightarrow> (Inl e, self, w1)
                   | Inr test \<Rightarrow>
                       let trainer = \<lparr>tr_model = model self,
                                      tr_args = train_args,
                                      tr_train_dataset = train,
                                      tr_eval_dataset = test,
                                      tr_compute_metrics = metric_fn self\<rparr>;
                           w2 = logger_info fw ''Starting training'' w1
                       in (case trainer_train fw trainer (continue_train self) w2 of
                             (Some e, trainer1, w3) \<Rightarrow>
                               (Inl e, self\<lparr>model := tr_model trainer1\<rparr>, w3)
                           | (None, trainer1, w3) \<Rightarrow>
                               let self1 = self\<lparr>model := tr_model trainer1\<rparr>;
                                   w4 = logger_info fw ''Finished training'' w3
                               in (case trainer_save_state fw trainer1 w4 of
                                     (Inl e, w5) \<Rightarrow> (Inl e, self1, w5)
                                   | (Inr _, w5) \<Rightarrow>
                                       (case save_model hooks self1 trainer1 model_out_dir w5 of
                                          (Inl e, w6) \<Rightarrow> (Inl e, self1, w6)
                                        | (Inr _, w6) \<Rightarrow> (Inr (), self1, w6)))))))"

section \<open>The data loader and numpy's vstack\<close>

text \<open>
  \<open>chunks n xs\<close> cuts \<open>xs\<close> into consecutive pieces of \<open>n\<close> elements, the last one
  shorter when \<open>n\<close> does not divide the length: the batch sampler with
  \<open>drop_last=False\<close> over a sequential sampler.
\<close>

function chunks :: "nat \<Rightarrow> 'x list \<Rightarrow> 'x list list" where
  "chunks n xs = (if n = 0 \<or> xs = [] then [] else take n xs # chunks n (drop n xs))"
  by pat_completeness auto
termination
  by (relation "measure (\<lambda>(n, xs). length xs)") auto

declare chunks.simps [simp del]

text \<open>
  \<open>DataLoader(split, batch_size, shuffle=False)\<close>: a batch size that is not positive
  raises ValueError at construction. Iterating fetches the rows \<open>0, 1, ...\<close> in order,
  \<open>batch_size\<close> at a time, and collates each group column by column.
\<close>

record 'c DataLoader =
  dl_dataset :: "'c split"
  dl_batch_size :: nat

definition new_DataLoader :: "'c split \<Rightarrow> int \<Rightarrow> exn + 'c DataLoader" where
  "new_DataLoader s bsz =
     (if bsz \<le> 0 then Inl (ValueError ''batch_size should be a positive integer value'')
      else Inr \<lparr>dl_dataset = s, dl_batch_size = nat bsz\<rparr>)"

definition collate :: "'c split \<Rightarrow> nat list \<Rightarrow> (string \<times> 'c list) list" where
  "collate s idxs = map (\<lambda>(name, cells). (name, map (\<lambda>i. cells ! i) idxs)) (columns s)"

definition dataloader_iter :: "'c DataLoader \<Rightarrow> (string \<times> 'c list) list list" where
  "dataloader_iter dl =
     map (collate (dl_dataset dl)) (chunks (dl_batch_size dl) [0..<num_rows (dl_dataset dl)])"

text \<open>\<open>batch[name]\<close>: the collated column, or KeyError.\<close>

definition batch_get :: "(string \<times> 'c list) list \<Rightarrow> string \<Rightarrow> exn + 'c list" where
  "batch_get batch name =
     (case map_of batch name of
        None \<Rightarrow> Inl (KeyError name)
      | Some cells \<Rightarrow> Inr cells)"

text \<open>
  \<open>np.vstack(blocks)\<close> on two-dimensional blocks: the rows of the blocks, one block
  after the other. An empty list of blocks raises ValueError, and so do rows of
  different widths.
\<close>

definition vstack :: "'a list list list \<Rightarrow> exn + 'a list list" where
  "vstack blocks =
     (if blocks = [] then Inl (ValueError ''need at least one array to concatenate'')
      else if \<exists>r \<in> set (concat blocks). \<exists>r' \<in> set (concat blocks). length r \<noteq> length r'
      then Inl (ValueError ''all the input array dimensions except for the concatenation axis must match exactly'')
      else Inr (concat blocks))"

section \<open>estimators/base.py: predict\<close>

text \<open>
  The loop of \<open>predict\<close> over the enumerated batches (\<open>List.enumerate 0\<close> numbers
  them from 0), appending each block of embeddings to \<open>total_embeddings\<close>. Moving a tensor to a device and back does not
  change its content.
\<close>

fun predict_loop ::
  "('f, 'm, 'c, 'a, 'w) framework \<Rightarrow> ('f, 'm) estimator \<Rightarrow> (nat \<times> (string \<times> 'c list) list) list
     \<Rightarrow> 'a list list list \<Rightarrow> exn + 'a list list list" where
  "predict_loop fw self [] total_embeddings = Inr total_embeddings"
| "predict_loop fw self ((i, batch) # rest) total_embeddings =
     (case batch_get batch ''input_ids'' of
        Inl e \<Rightarrow> Inl e
      | Inr input_ids \<Rightarrow>
          (case batch_get batch ''attention_mask'' of
             Inl e \<Rightarrow> Inl e
           | Inr attention_mask \<Rightarrow>
               (case get_embed fw (model self) input_ids attention_mask of
                  Inl e \<Rightarrow> Inl e
                | Inr embeddings \<Rightarrow>
                    predict_loop fw self rest (total_embeddings @ [embeddings]))))"

definition predict ::
  "('f, 'm, 'c, 'a, 'w) hooks \<Rightarrow> ('f, 'm, 'c, 'a, 'w) framework \<Rightarrow> ('f, 'm) estimator
     \<Rightarrow> string \<Rightarrow> string \<Rightarrow> string \<Rightarrow> 'w
     \<Rightarrow> (exn + 'a list list) \<times> ('f, 'm) estimator \<times> 'w" where
  "predict hooks fw self dataset_dir out_dir id_col w =
     (let w0 = logger_info fw ''Loading data'' w
      in case load_dataset hooks self dataset_dir (Some [''input_ids'', ''attention_mask'']) w0 of
           (Inl e, w1) \<Rightarrow> (Inl e, self, w1)
         | (Inr dataset, w1) \<Rightarrow>
             (case get_split dataset ''test'' of
                Inl e \<Rightarrow> (Inl e, self, w1)
              | Inr test \<Rightarrow>
                  (case new_DataLoader test (eval_batch_size self) of
                     Inl e \<Rightarrow> (Inl e, self, w1)
                   | Inr dataloader \<Rightarrow>
                       let batch_iterator = List.enumerate 0 (dataloader_iter dataloader)
                       in (case extract_ids dataset id_col of
                             Inl e \<Rightarrow> (Inl e, self, w1)
                           | Inr ids \<Rightarrow>
                               let self1 = self\<lparr>model := model_to fw (device self) (model self)\<rparr>;
                                   self2 = self1\<lparr>model := model_eval fw (model self1)\<rparr>;
                                   w2 = logger_info fw ''Starting inference'' w1
                               in (case predict_loop fw self2 batch_iterator [] of
                                     Inl e \<Rightarrow> (Inl e, self2, w2)
                                   | Inr blocks \<Rightarrow>
                                       (case vstack blocks of
                                          Inl e \<Rightarrow> (Inl e, self2, w2)
                                        | Inr total_embeddings \<Rightarrow>
                                            let w3 = logger_info fw ''Finished inference'' w2
                                            in (case save_inference_results hooks self2
                                                       (total_embeddings, ids) out_dir w3 of
                                                  (Inl e, w4) \<Rightarrow> (Inl e, self2, w4)
                                                | (Inr _, w4) \<Rightarrow>
                                                    (Inr total_embeddings, self2, w4))))))))"


section \<open>estimators/base.py: softmax and the metric\<close>

text \<open>
  A logits array is a list of rows, one per example, each holding one score per class.
  Its entries are floating-point numbers, and nothing is assumed of their arithmetic:
  the operations numpy applies to them (maximum, subtraction, exponential, addition,
  division) are the fields of a record, and \<open>softmax\<close> is the way the source
  combines them. Division never raises: numpy returns \<open>inf\<close> or \<open>nan\<close> where the
  divisor is zero.
\<close>

record 'x arith =
  a_max :: "'x \<Rightarrow> 'x \<Rightarrow> 'x"
  a_sub :: "'x \<Rightarrow> 'x \<Rightarrow> 'x"
  a_exp :: "'x \<Rightarrow> 'x"
  a_add :: "'x \<Rightarrow> 'x \<Rightarrow> 'x"
  a_div :: "'x \<Rightarrow> 'x \<Rightarrow> 'x"

text \<open>
  \<open>np.max(x)\<close>, with no axis: the maximum over all entries of the array, or ValueError
  when the array has no entry.
\<close>

definition np_max :: "'x arith \<Rightarrow> 'x list list \<Rightarrow> exn + 'x" where
  "np_max ar x =
     (case concat x of
        [] \<Rightarrow>
          Inl (ValueError ''zero-size array to reduction operation maximum which has no identity'')
      | v # vs \<Rightarrow> Inr (fold (\<lambda>u acc. a_max ar acc u) vs v))"

text \<open>
  \<open>x.sum(axis=0)\<close>: the rows added entry by entry, from the first row on, which gives
  one sum per column. (The width of an array with no row is not represented; \<open>softmax\<close>
  never sums one.)
\<close>

definition sum_axis0 :: "'x arith \<Rightarrow> 'x list list \<Rightarrow> 'x list" where
  "sum_axis0 ar x =
     (case x of
        [] \<Rightarrow> []
      | r # rest \<Rightarrow> fold (\<lambda>row acc. map (\<lambda>(s, v). a_add ar s v) (zip acc row)) rest r)"

text \<open>The division broadcasts the column sums over the rows.\<close>

definition softmax :: "'x arith \<Rightarrow> 'x list list \<Rightarrow> exn + 'x list list" where
  "softmax ar x =
     (case np_max ar x of
        Inl e \<Rightarrow> Inl e
      | Inr mx \<Rightarrow>
          let e_x = map (map (\<lambda>v. a_exp ar (a_sub ar v mx))) x
          in Inr (map (\<lambda>r. map (\<lambda>(a, s). a_div ar a s) (zip r (sum_axis0 ar e_x))) e_x))"

text \<open>
  \<open>load_metric\<close> and the metric it returns belong to an external library: the first is
  a parameter, the second the function it yields.
\<close>

definition compute_f1 ::
  "'x arith \<Rightarrow> (string \<Rightarrow> exn + ('x list list \<Rightarrow> 'l \<Rightarrow> exn + 'r)) \<Rightarrow> 'x list list \<times> 'l
     \<Rightarrow> exn + 'r" where
  "compute_f1 ar load_metric eval_pred =
     (case load_metric ''f1'' of
        Inl e \<Rightarrow> Inl e
      | Inr metric \<Rightarrow>
          (case eval_pred of
             (logits, labels) \<Rightarrow>
               (case softmax ar logits of
                  Inl e \<Rightarrow> Inl e
                | Inr predictions \<Rightarrow> metric predictions labels)))"

text \<open>
  The arithmetic of the real numbers, which float64 rounds. The two agree exactly on
  what the run below computes: \<open>exp 0 = 1\<close> and \<open>1 / 1 = 1\<close>.
\<close>

definition real_arith :: "real arith" where
  "real_arith = \<lparr>a_max = max, a_sub = (-), a_exp = exp, a_add = (+), a_div = (/)\<rparr>"

section \<open>preprocessing/data_tokenization.py\<close>

















section \<open>A concrete estimator and a concrete tokenization run\<close>

text \<open>
  A subclass in miniature, used to run the definitions: the world is the log of the
  calls made, the model is the list of what was done to it, the test split has five
  rows whose id is the row index, and the embedding of a row is the pair of its token
  id and its attention mask.
\<close>

definition demo_split :: "int split" where
  "demo_split =
     \<lparr>num_rows = 5,
      columns = [(''doc_id'', [0, 1, 2, 3, 4]),
                 (''input_ids'', [10, 11, 12, 13, 14]),
                 (''attention_mask'', [1, 1, 1, 0, 1])]\<rparr>"

definition demo_dataset :: "int dataset" where
  "demo_dataset = [(''train'', demo_split), (''test'', demo_split)]"

definition demo_hooks :: "(unit, string list, int, int, string list) hooks" where
  "demo_hooks =
     \<lparr>load_model = (\<lambda>self w. (Inr [''loaded''], w @ [''_load_model''])),
      load_dataset = (\<lambda>self dataset_path torch_columns w.
         (Inr demo_dataset, w @ [''_load_dataset''])),
      save_model = (\<lambda>self trainer model_out_dir w. (Inr (), w @ [''_save_model''])),
      save_inference_results = (\<lambda>self inference_res out_dir w.
         (Inr (), w @ [''_save_inference_results'']))\<rparr>"

definition demo_fw :: "(unit, string list, int, int, string list) framework" where
  "demo_fw =
     \<lparr>cuda_is_available = False,
      logger_info = (\<lambda>msg w. w @ [msg]),
      trainer_train = (\<lambda>trainer resume w.
         (None, trainer\<lparr>tr_model := tr_model trainer @ [''trained'']\<rparr>, w @ [''train''])),
      trainer_save_state = (\<lambda>trainer w. (Inr (), w @ [''save_state''])),
      model_to = (\<lambda>d m. m @ [d]),
      model_eval = (\<lambda>m. m @ [''eval'']),
      get_embed = (\<lambda>m input_ids attention_mask.
         Inr (map (\<lambda>(i, a). [i, a]) (zip input_ids attention_mask)))\<rparr>"

definition demo_args :: "unit estimator_args" where
  "demo_args =
     \<lparr>arg_model_name_or_path = ''bert-base-uncased'',
      arg_model_type = ''bert-dot-bce'',
      arg_train_steps = 100,
      arg_num_epochs = 3,
      arg_batch_size = 8,
      arg_accum_steps = 2,
      arg_lr = 3 / 100000,
      arg_metric_fn = (),
      arg_device = None,
      arg_eval_batch_size = None,
      arg_save_steps = None,
      arg_continue_train = False,
      arg_in_batch_neg = False\<rparr>"

text \<open>The estimator that \<open>demo_args\<close> constructs, for a given \<open>eval_batch_size\<close> and \<open>save_steps\<close>.\<close>

definition demo_self :: "int option \<Rightarrow> int option \<Rightarrow> (unit, string list) estimator" where
  "demo_self ebs ss =
     \<lparr>model_name_or_path = ''bert-base-uncased'',
      model_class = BertDotBCEModel,
      train_steps = 100,
      num_epochs = 3,
      batch_size = 8,
      accum_steps = 2,
      lr = 3 / 100000,
      in_batch_neg = False,
      metric_fn = (),
      model = [''loaded''],
      device = ''cpu'',
      eval_batch_size = (case ebs of None \<Rightarrow> 8 | Some b \<Rightarrow> b),
      save_strategy = (case ss of None \<Rightarrow> ''epoch'' | Some _ \<Rightarrow> ''steps''),
      save_steps = (case ss of None \<Rightarrow> 0 | Some n \<Rightarrow> n),
      continue_train = False\<rparr>"






section \<open>Specification vocabulary\<close>

text \<open>
  \<open>embeds_to fw m batch block\<close>: one pass of the loop of \<open>predict\<close> over \<open>batch\<close>
  succeeds and appends \<open>block\<close>.
\<close>

definition embeds_to ::
  "('f, 'm, 'c, 'a, 'w) framework \<Rightarrow> 'm \<Rightarrow> (string \<times> 'c list) list \<Rightarrow> 'a list list \<Rightarrow> bool" where
  "embeds_to fw m batch block =
     (\<exists>input_ids attention_mask.
        batch_get batch ''input_ids'' = Inr input_ids
      \<and> batch_get batch ''attention_mask'' = Inr attention_mask
      \<and> get_embed fw m input_ids attention_mask = Inr block)"

text \<open>
  What \<open>fit\<close> does once \<open>trainer.train\<close> has returned or raised (lines 122 to 124 of
  base.py): the model of \<open>self\<close> is the trained one in either case; after a training
  that did not raise come the log line, \<open>trainer.save_state()\<close> and the hook
  \<open>_save_model\<close>.
\<close>

definition fit_after_train ::
  "('f, 'm, 'c, 'a, 'w) hooks \<Rightarrow> ('f, 'm, 'c, 'a, 'w) framework \<Rightarrow> ('f, 'm) estimator \<Rightarrow> string
     \<Rightarrow> exn option \<times> ('f, 'm, 'c) Trainer \<times> 'w \<Rightarrow> (exn + unit) \<times> ('f, 'm) estimator \<times> 'w" where
  "fit_after_train hooks fw self model_out_dir trained =
     (case trained of
        (Some e, trainer1, w3) \<Rightarrow> (Inl e, self\<lparr>model := tr_model trainer1\<rparr>, w3)
      | (None, trainer1, w3) \<Rightarrow>
          let self1 = self\<lparr>model := tr_model trainer1\<rparr>;
              w4 = logger_info fw ''Finished training'' w3
          in (case trainer_save_state fw trainer1 w4 of
                (Inl e, w5) \<Rightarrow> (Inl e, self1, w5)
              | (Inr _, w5) \<Rightarrow>
                  (case save_model hooks self1 trainer1 model_out_dir w5 of
                     (Inl e, w6) \<Rightarrow> (Inl e, self1, w6)
                   | (Inr _, w6) \<Rightarrow> (Inr (), self1, w6))))"





section \<open>Construction and fit\<close>

lemma init_Inr:
  assumes "BaseEstimator_init hooks fw args w = (Inr self, w')"
  shows "train_steps self = arg_train_steps args"
    and "num_epochs self = arg_num_epochs args"
    and "batch_size self = arg_batch_size args"
    and "accum_steps self = arg_accum_steps args"
    and "lr self = arg_lr args"
    and "eval_batch_size self =
           (case arg_eval_batch_size args of None \<Rightarrow> arg_batch_size args | Some b \<Rightarrow> b)"
    and "save_strategy self = (case arg_save_steps args of None \<Rightarrow> ''epoch'' | Some _ \<Rightarrow> ''steps'')"
    and "save_steps self = (case arg_save_steps args of None \<Rightarrow> 0 | Some n \<Rightarrow> n)"
  using assms
  by (auto simp: BaseEstimator_init_def estimator_head.extend_def Let_def
      split: option.splits sum.splits prod.splits)


lemma demo_init:
  "BaseEstimator_init demo_hooks demo_fw
     (demo_args\<lparr>arg_eval_batch_size := ebs, arg_save_steps := ss\<rparr>) []
   = (Inr (demo_self ebs ss), [''_load_model''])"
  by (cases ebs; cases ss)
     (simp_all add: BaseEstimator_init_def MODEL_TYPES_def demo_args_def demo_hooks_def
      demo_fw_def demo_self_def estimator_head.extend_def)

lemma map_of_MODEL_TYPES_None:
  "t \<notin> {''bert-dot-bce'', ''bert-dot-pairwise-ranking''} \<Longrightarrow> map_of MODEL_TYPES t = None"
  by (simp add: MODEL_TYPES_def)

text \<open>
  Claim C3, as the code has it. For a \<open>model_type\<close> outside
  \<open>{bert-dot-bce, bert-dot-pairwise-ranking}\<close>, construction fails with the KeyError of the
  dictionary lookup \<open>MODEL_TYPES[model_type]\<close>, carrying the key, and the world is the
  one it started in whatever the hooks are: the model-loading hook has not run.
\<close>

theorem init_unknown_model_type:
  assumes "arg_model_type args \<notin> {''bert-dot-bce'', ''bert-dot-pairwise-ranking''}"
  shows "BaseEstimator_init hooks fw args w = (Inl (KeyError (arg_model_type args)), w)"
  using map_of_MODEL_TYPES_None [OF assms] by (simp add: BaseEstimator_init_def)

text \<open>
  At \<open>model_type = 'bert-dot'\<close>, with a model-loading hook that logs its call: the log
  stays empty.
\<close>

theorem init_unknown_model_type_witness:
  "BaseEstimator_init demo_hooks demo_fw (demo_args\<lparr>arg_model_type := ''bert-dot''\<rparr>) []
     = (Inl (KeyError ''bert-dot''), [])"
  using init_unknown_model_type
    [of "demo_args\<lparr>arg_model_type := ''bert-dot''\<rparr>" demo_hooks demo_fw "[]"]
  by (simp add: demo_args_def)

text \<open>
  Claim C3 as the specification words it fails: the exception of that construction is
  not of a class \<open>UnknownModelTypeError\<close> (the source defines no such class), it is a
  KeyError.
\<close>

theorem init_unknown_model_type_counterexample:
  "\<not> raises (fst (BaseEstimator_init demo_hooks demo_fw
                   (demo_args\<lparr>arg_model_type := ''bert-dot''\<rparr>) []))
       ''UnknownModelTypeError''
   \<and> raises (fst (BaseEstimator_init demo_hooks demo_fw
                   (demo_args\<lparr>arg_model_type := ''bert-dot''\<rparr>) []))
       ''KeyError''"
  by (simp add: BaseEstimator_init_def MODEL_TYPES_def demo_args_def raises_def)

lemma fit_trains:
  assumes load: "load_dataset hooks self dataset_dir None w = (Inr dataset, w1)"
    and tr: "get_split dataset ''train'' = Inr train"
    and te: "get_split dataset ''test'' = Inr test"
  shows "fit hooks fw self dataset_dir model_out_dir w
           = fit_after_train hooks fw self model_out_dir
               (trainer_train fw
                  \<lparr>tr_model = model self, tr_args = fit_train_args self,
                   tr_train_dataset = train, tr_eval_dataset = test,
                   tr_compute_metrics = metric_fn self\<rparr>
                  (continue_train self) (logger_info fw ''Starting training'' w1))"
  using assms
  by (simp add: fit_def fit_after_train_def Let_def split: prod.splits option.splits sum.splits)

lemma demo_fit_load:
  "load_dataset demo_hooks self ''data'' None [] = (Inr demo_dataset, [''_load_dataset''])"
  by (simp add: demo_hooks_def)

lemma demo_splits:
  "get_split demo_dataset ''train'' = Inr demo_split"
  "get_split demo_dataset ''test'' = Inr demo_split"
  by (simp_all add: get_split_def demo_dataset_def)


text \<open>
  Claim C4. Take an estimator constructed with \<open>train_steps=100\<close>, \<open>num_epochs=3\<close>,
  \<open>batch_size=8\<close>, \<open>accum_steps=2\<close>, \<open>lr=3e-5\<close>, whatever its other arguments, hooks and
  framework, and a call of \<open>fit\<close> whose dataset hook returns a train and a test split.
  What \<open>fit\<close> does is train the Trainer it builds from the model, the two splits, the
  metric function and the configuration \<open>fit_train_args self\<close>, and go on from what
  training returned; and that configuration has \<open>learning_rate=3e-5\<close>,
  \<open>gradient_accumulation_steps=2\<close>, \<open>warmup_steps=500\<close>, \<open>eval_steps=5000\<close>,
  \<open>weight_decay=0.01\<close>, \<open>logging_steps=500\<close> and the constant schedule.
\<close>

theorem fit_train_args_scenario:
  assumes init: "BaseEstimator_init hooks fw args w0 = (Inr self, w0')"
    and "arg_train_steps args = 100" and "arg_num_epochs args = 3"
    and "arg_batch_size args = 8" and "arg_accum_steps args = 2"
    and "arg_lr args = 3 / 100000"
    and load: "load_dataset hooks self dataset_dir None w = (Inr dataset, w1)"
    and tr: "get_split dataset ''train'' = Inr train"
    and te: "get_split dataset ''test'' = Inr test"
  shows "fit hooks fw self dataset_dir model_out_dir w
           = fit_after_train hooks fw self model_out_dir
               (trainer_train fw
                  \<lparr>tr_model = model self, tr_args = fit_train_args self,
                   tr_train_dataset = train, tr_eval_dataset = test,
                   tr_compute_metrics = metric_fn self\<rparr>
                  (continue_train self) (logger_info fw ''Starting training'' w1))
       \<and> ta_learning_rate (fit_train_args self) = 3 / 100000
       \<and> ta_gradient_accumulation_steps (fit_train_args self) = 2
       \<and> ta_warmup_steps (fit_train_args self) = 500
       \<and> ta_eval_steps (fit_train_args self) = 5000
       \<and> ta_weight_decay (fit_train_args self) = 1 / 100
       \<and> ta_logging_steps (fit_train_args self) = 500
       \<and> ta_lr_scheduler_type (fit_train_args self) = ''constant''"
proof -
  note fit_trains [OF load tr te, of fw model_out_dir]
  moreover from init_Inr [OF init] assms(2-6)
  have "ta_learning_rate (fit_train_args self) = 3 / 100000
       \<and> ta_gradient_accumulation_steps (fit_train_args self) = 2
       \<and> ta_warmup_steps (fit_train_args self) = 500
       \<and> ta_eval_steps (fit_train_args self) = 5000
       \<and> ta_weight_decay (fit_train_args self) = 1 / 100
       \<and> ta_logging_steps (fit_train_args self) = 500
       \<and> ta_lr_scheduler_type (fit_train_args self) = ''constant''"
    by (simp add: fit_train_args_def)
  ultimately show ?thesis by (rule conjI)
qed

lemma demo_fit_steps:
  "fit demo_hooks demo_fw (demo_self (Some 32) (Some 1000)) ''data'' ''out'' []
     = (Inr (), (demo_self (Some 32) (Some 1000))\<lparr>model := [''loaded'', ''trained'']\<rparr>,
        [''_load_dataset'', ''Starting training'', ''train'', ''Finished training'',
         ''save_state'', ''_save_model''])"
  by code_simp

theorem fit_train_args_scenario_witness:
  "BaseEstimator_init demo_hooks demo_fw
     (demo_args\<lparr>arg_eval_batch_size := Some 32, arg_save_steps := Some 1000\<rparr>) []
     = (Inr (demo_self (Some 32) (Some 1000)), [''_load_model''])
   \<and> fit_after_train demo_hooks demo_fw (demo_self (Some 32) (Some 1000)) ''out''
         (trainer_train demo_fw
            \<lparr>tr_model = [''loaded''], tr_args = fit_train_args (demo_self (Some 32) (Some 1000)),
             tr_train_dataset = demo_split, tr_eval_dataset = demo_split,
             tr_compute_metrics = ()\<rparr>
            False [''_load_dataset'', ''Starting training''])
       = (Inr (), (demo_self (Some 32) (Some 1000))\<lparr>model := [''loaded'', ''trained'']\<rparr>,
          [''_load_dataset'', ''Starting training'', ''train'', ''Finished training'',
           ''save_state'', ''_save_model''])
   \<and> ta_learning_rate (fit_train_args (demo_self (Some 32) (Some 1000))) = 3 / 100000
   \<and> ta_gradient_accumulation_steps (fit_train_args (demo_self (Some 32) (Some 1000))) = 2
   \<and> ta_warmup_steps (fit_train_args (demo_self (Some 32) (Some 1000))) = 500
   \<and> ta_eval_steps (fit_train_args (demo_self (Some 32) (Some 1000))) = 5000
   \<and> ta_weight_decay (fit_train_args (demo_self (Some 32) (Some 1000))) = 1 / 100
   \<and> ta_logging_steps (fit_train_args (demo_self (Some 32) (Some 1000))) = 500
   \<and> ta_lr_scheduler_type (fit_train_args (demo_self (Some 32) (Some 1000))) = ''constant''"
proof -
  note i = demo_init [where ebs = "Some 32" and ss = "Some 1000"]
  have sel: "model (demo_self (Some 32) (Some 1000)) = [''loaded'']"
    "metric_fn (demo_self (Some 32) (Some 1000)) = ()"
    "continue_train (demo_self (Some 32) (Some 1000)) = False"
    "logger_info demo_fw ''Starting training'' [''_load_dataset'']
       = [''_load_dataset'', ''Starting training'']"
    by (simp_all add: demo_self_def demo_fw_def)
  have a: "arg_train_steps (demo_args\<lparr>arg_eval_batch_size := Some 32, arg_save_steps := Some 1000\<rparr>) = 100"
    "arg_num_epochs (demo_args\<lparr>arg_eval_batch_size := Some 32, arg_save_steps := Some 1000\<rparr>) = 3"
    "arg_batch_size (demo_args\<lparr>arg_eval_batch_size := Some 32, arg_save_steps := Some 1000\<rparr>) = 8"
    "arg_accum_steps (demo_args\<lparr>arg_eval_batch_size := Some 32, arg_save_steps := Some 1000\<rparr>) = 2"
    "arg_lr (demo_args\<lparr>arg_eval_batch_size := Some 32, arg_save_steps := Some 1000\<rparr>) = 3 / 100000"
    by (simp_all add: demo_args_def)
  from fit_train_args_scenario [OF i a demo_fit_load demo_splits, where model_out_dir = "''out''"]
  show ?thesis unfolding demo_fit_steps sel using i by simp
qed

text \<open>
  Claim C5. Constructing with \<open>save_steps=None\<close> gives the strategy \<open>'epoch'\<close>,
  constructing with \<open>save_steps=1000\<close> gives \<open>'steps'\<close> with a step interval of 1000; and
  \<open>fit\<close>, once its dataset hook has returned a train and a test split, trains a Trainer
  whose configuration carries the resolved strategy and interval.
\<close>

theorem save_strategy_resolved:
  assumes init: "BaseEstimator_init hooks fw args w0 = (Inr self, w0')"
    and load: "load_dataset hooks self dataset_dir None w = (Inr dataset, w1)"
    and tr: "get_split dataset ''train'' = Inr train"
    and te: "get_split dataset ''test'' = Inr test"
  shows "fit hooks fw self dataset_dir model_out_dir w
           = fit_after_train hooks fw self model_out_dir
               (trainer_train fw
                  \<lparr>tr_model = model self, tr_args = fit_train_args self,
                   tr_train_dataset = train, tr_eval_dataset = test,
                   tr_compute_metrics = metric_fn self\<rparr>
                  (continue_train self) (logger_info fw ''Starting training'' w1))
       \<and> (arg_save_steps args = None \<longrightarrow>
            save_strategy self = ''epoch''
          \<and> ta_save_strategy (fit_train_args self) = ''epoch'')
       \<and> (arg_save_steps args = Some 1000 \<longrightarrow>
            save_strategy self = ''steps'' \<and> save_steps self = 1000
          \<and> ta_save_strategy (fit_train_args self) = ''steps''
          \<and> ta_save_steps (fit_train_args self) = 1000)
       \<and> ta_save_strategy (fit_train_args self) = save_strategy self
       \<and> ta_save_steps (fit_train_args self) = save_steps self"
proof -
  note fit_trains [OF load tr te, of fw model_out_dir]
  moreover from init_Inr [OF init]
  have "(arg_save_steps args = None \<longrightarrow>
            save_strategy self = ''epoch''
          \<and> ta_save_strategy (fit_train_args self) = ''epoch'')
       \<and> (arg_save_steps args = Some 1000 \<longrightarrow>
            save_strategy self = ''steps'' \<and> save_steps self = 1000
          \<and> ta_save_strategy (fit_train_args self) = ''steps''
          \<and> ta_save_steps (fit_train_args self) = 1000)
       \<and> ta_save_strategy (fit_train_args self) = save_strategy self
       \<and> ta_save_steps (fit_train_args self) = save_steps self"
    by (simp add: fit_train_args_def)
  ultimately show ?thesis by (rule conjI)
qed

theorem save_strategy_resolved_witness:
  "fit demo_hooks demo_fw (demo_self None (Some 1000)) ''data'' ''out'' []
     = fit_after_train demo_hooks demo_fw (demo_self None (Some 1000)) ''out''
         (trainer_train demo_fw
            \<lparr>tr_model = model (demo_self None (Some 1000)),
             tr_args = fit_train_args (demo_self None (Some 1000)),
             tr_train_dataset = demo_split, tr_eval_dataset = demo_split,
             tr_compute_metrics = metric_fn (demo_self None (Some 1000))\<rparr>
            (continue_train (demo_self None (Some 1000)))
            (logger_info demo_fw ''Starting training'' [''_load_dataset'']))
   \<and> ta_save_strategy (fit_train_args (demo_self None None)) = ''epoch''
   \<and> ta_save_strategy (fit_train_args (demo_self None (Some 1000))) = ''steps''
   \<and> ta_save_steps (fit_train_args (demo_self None (Some 1000))) = 1000"
  using save_strategy_resolved
      [OF demo_init [where ebs = None and ss = None] demo_fit_load demo_splits,
       where model_out_dir = "''out''"]
    save_strategy_resolved
      [OF demo_init [where ebs = None and ss = "Some 1000"] demo_fit_load demo_splits,
       where model_out_dir = "''out''"]
  by (simp add: demo_args_def)

text \<open>
  Claim C9. Whatever \<open>eval_batch_size\<close> the estimator was constructed with, \<open>fit\<close>, once
  its dataset hook has returned a train and a test split, trains a Trainer whose
  configuration has the constructor's \<open>batch_size\<close> as its per-device evaluation batch
  size; and that configuration is the same for any value of the estimator's effective
  evaluation batch size, which only \<open>predict\<close> reads.
\<close>

theorem fit_eval_batch_size:
  assumes init: "BaseEstimator_init hooks fw args w0 = (Inr self, w0')"
    and load: "load_dataset hooks self dataset_dir None w = (Inr dataset, w1)"
    and tr: "get_split dataset ''train'' = Inr train"
    and te: "get_split dataset ''test'' = Inr test"
  shows "fit hooks fw self dataset_dir model_out_dir w
           = fit_after_train hooks fw self model_out_dir
               (trainer_train fw
                  \<lparr>tr_model = model self, tr_args = fit_train_args self,
                   tr_train_dataset = train, tr_eval_dataset = test,
                   tr_compute_metrics = metric_fn self\<rparr>
                  (continue_train self) (logger_info fw ''Starting training'' w1))
       \<and> ta_per_device_eval_batch_size (fit_train_args self) = arg_batch_size args
       \<and> fit_train_args (self\<lparr>eval_batch_size := b\<rparr>) = fit_train_args self"
proof -
  note fit_trains [OF load tr te, of fw model_out_dir]
  moreover from init_Inr [OF init]
  have "ta_per_device_eval_batch_size (fit_train_args self) = arg_batch_size args
       \<and> fit_train_args (self\<lparr>eval_batch_size := b\<rparr>) = fit_train_args self"
    by (simp add: fit_train_args_def)
  ultimately show ?thesis by (rule conjI)
qed

theorem fit_eval_batch_size_witness:
  "fit demo_hooks demo_fw (demo_self (Some 32) None) ''data'' ''out'' []
     = fit_after_train demo_hooks demo_fw (demo_self (Some 32) None) ''out''
         (trainer_train demo_fw
            \<lparr>tr_model = model (demo_self (Some 32) None),
             tr_args = fit_train_args (demo_self (Some 32) None),
             tr_train_dataset = demo_split, tr_eval_dataset = demo_split,
             tr_compute_metrics = metric_fn (demo_self (Some 32) None)\<rparr>
            (continue_train (demo_self (Some 32) None))
            (logger_info demo_fw ''Starting training'' [''_load_dataset'']))
   \<and> eval_batch_size (demo_self (Some 32) None) = 32
   \<and> ta_per_device_eval_batch_size (fit_train_args (demo_self (Some 32) None)) = 8"
proof -
  have "eval_batch_size (demo_self (Some 32) None) = 32" by (simp add: demo_self_def)
  with fit_eval_batch_size
      [OF demo_init [where ebs = "Some 32" and ss = None] demo_fit_load demo_splits,
       where model_out_dir = "''out''"]
  show ?thesis by (simp add: demo_args_def)
qed

lemma fit_frame:
  "fit hooks fw self dataset_dir model_out_dir w = (r, self', w')
     \<Longrightarrow> self'\<lparr>model := model self\<rparr> = self"
  by (auto simp: fit_def Let_def split: sum.splits prod.splits option.splits)

lemma predict_frame:
  "predict hooks fw self dataset_dir out_dir id_col w = (r, self', w')
     \<Longrightarrow> self'\<lparr>model := model self\<rparr> = self"
  by (auto simp: predict_def Let_def split: sum.splits prod.splits)

lemma demo_self_model: "model (demo_self ebs ss) = [''loaded'']"
  by (simp add: demo_self_def)

lemma demo_fit:
  "fit demo_hooks demo_fw (demo_self None None) ''data'' ''out'' []
     = (Inr (), (demo_self None None)\<lparr>model := [''loaded'', ''trained'']\<rparr>,
        [''_load_dataset'', ''Starting training'', ''train'', ''Finished training'',
         ''save_state'', ''_save_model''])"
  by code_simp

lemma demo_predict:
  "predict demo_hooks demo_fw (demo_self (Some 2) None) ''data'' ''out'' ''doc_id'' []
     = (Inr [[10, 1], [11, 1], [12, 1], [13, 0], [14, 1]],
        (demo_self (Some 2) None)\<lparr>model := [''loaded'', ''cpu'', ''eval'']\<rparr>,
        [''Loading data'', ''_load_dataset'', ''Starting inference'', ''Finished inference'',
         ''_save_inference_results''])"
  by code_simp

text \<open>
  Claim C7. Whatever \<open>fit\<close> and \<open>predict\<close> return or raise, the estimator they leave
  differs from the one they were called on in the model object at most: every
  configuration field (model name or path, model class, \<open>train_steps\<close>, \<open>num_epochs\<close>,
  \<open>batch_size\<close>, \<open>accum_steps\<close>, \<open>lr\<close>, \<open>in_batch_neg\<close>, metric function, device, effective
  evaluation batch size, save strategy and steps, continue-train flag) is as
  construction set it.
\<close>

theorem configuration_frame:
  "(fit hooks fw self dataset_dir model_out_dir w = (r, self', w')
      \<longrightarrow> self'\<lparr>model := model self\<rparr> = self)
   \<and> (predict hooks fw self dataset_dir out_dir id_col w = (r2, self2, w2)
      \<longrightarrow> self2\<lparr>model := model self\<rparr> = self)"
  using fit_frame [of hooks fw self dataset_dir model_out_dir w r self' w']
    predict_frame [of hooks fw self dataset_dir out_dir id_col w r2 self2 w2]
  by blast

text \<open>
  On the concrete estimator, \<open>fit\<close> trains the model and \<open>predict\<close> moves it to the
  device and sets evaluation mode; nothing else of the estimator changes.
\<close>

theorem configuration_frame_witness:
  "fst (snd (fit demo_hooks demo_fw (demo_self None None) ''data'' ''out'' []))
       \<lparr>model := [''loaded'']\<rparr> = demo_self None None
   \<and> model (fst (snd (fit demo_hooks demo_fw (demo_self None None) ''data'' ''out'' [])))
       = [''loaded'', ''trained'']
   \<and> fst (snd (predict demo_hooks demo_fw (demo_self (Some 2) None) ''data'' ''out'' ''doc_id'' []))
       \<lparr>model := [''loaded'']\<rparr> = demo_self (Some 2) None
   \<and> model (fst (snd (predict demo_hooks demo_fw (demo_self (Some 2) None)
                        ''data'' ''out'' ''doc_id'' [])))
       = [''loaded'', ''cpu'', ''eval'']"
  using configuration_frame
    [of demo_hooks demo_fw "demo_self None None" "''data''" "''out''" "[]" "Inr ()"
        "(demo_self None None)\<lparr>model := [''loaded'', ''trained'']\<rparr>"
        "[''_load_dataset'', ''Starting training'', ''train'', ''Finished training'',
          ''save_state'', ''_save_model'']"
        "''out''" "''doc_id''" "Inr []" "demo_self None None" "[]"]
    configuration_frame
    [of demo_hooks demo_fw "demo_self (Some 2) None" "''data''" "''out''" "[]" "Inr ()"
        "demo_self (Some 2) None" "[]"
        "''out''" "''doc_id''" "Inr [[10, 1], [11, 1], [12, 1], [13, 0], [14, 1]]"
        "(demo_self (Some 2) None)\<lparr>model := [''loaded'', ''cpu'', ''eval'']\<rparr>"
        "[''Loading data'', ''_load_dataset'', ''Starting inference'', ''Finished inference'',
          ''_save_inference_results'']"]
  by (simp add: demo_fit demo_predict demo_self_model)

section \<open>Batches and predict\<close>

lemma chunks_Nil [simp]: "chunks n [] = []"
  by (simp add: chunks.simps)

lemma chunks_0 [simp]: "chunks 0 xs = []"
  by (simp add: chunks.simps)

lemma chunks_step: "0 < n \<Longrightarrow> xs \<noteq> [] \<Longrightarrow> chunks n xs = take n xs # chunks n (drop n xs)"
  by (subst chunks.simps) simp


lemma chunks_eq_Nil: "0 < n \<Longrightarrow> chunks n xs = [] \<longleftrightarrow> xs = []"
  by (cases "xs = []") (simp_all add: chunks_step)






lemma batch_get_collate:
  "batch_get (collate s idxs) name =
     (case get_column s name of Inl e \<Rightarrow> Inl e | Inr cells \<Rightarrow> Inr (map (\<lambda>i. cells ! i) idxs))"
proof -
  have "map_of (map (\<lambda>(name, cells). (name, map (\<lambda>i. cells ! i) idxs)) cs) name
          = map_option (\<lambda>cells. map (\<lambda>i. cells ! i) idxs) (map_of cs name)" for cs :: "(string \<times> 'a list) list"
    by (induction cs) auto
  then show ?thesis
    by (simp add: batch_get_def collate_def get_column_def split: option.splits)
qed



lemma predict_loop_Inr:
  "predict_loop fw self its acc = Inr blocks
     \<Longrightarrow> \<exists>new. blocks = acc @ new \<and> list_all2 (embeds_to fw (model self)) (map snd its) new"
proof (induction its arbitrary: acc)
  case Nil
  then show ?case by simp
next
  case (Cons it its)
  obtain i batch where it: "it = (i, batch)" by (cases it)
  from Cons.prems obtain input_ids attention_mask block
    where a: "batch_get batch ''input_ids'' = Inr input_ids"
      and b: "batch_get batch ''attention_mask'' = Inr attention_mask"
      and c: "get_embed fw (model self) input_ids attention_mask = Inr block"
      and d: "predict_loop fw self its (acc @ [block]) = Inr blocks"
    by (auto simp: it split: sum.splits)
  from Cons.IH [OF d] obtain new where "blocks = (acc @ [block]) @ new"
    and "list_all2 (embeds_to fw (model self)) (map snd its) new" by blast
  with a b c have "blocks = acc @ (block # new)
      \<and> list_all2 (embeds_to fw (model self)) (map snd (it # its)) (block # new)"
    by (auto simp: it embeds_to_def)
  then show ?case by blast
qed

lemma predict_loop_total:
  assumes "\<forall>batch \<in> snd ` set its. \<exists>block. embeds_to fw (model self) batch block"
  shows "\<exists>blocks. predict_loop fw self its acc = Inr blocks"
  using assms
proof (induction its arbitrary: acc)
  case Nil
  then show ?case by simp
next
  case (Cons it its)
  obtain i batch where it: "it = (i, batch)" by (cases it)
  from Cons.prems obtain block where "embeds_to fw (model self) batch block"
    by (auto simp: it)
  then obtain input_ids attention_mask
    where a: "batch_get batch ''input_ids'' = Inr input_ids"
      and b: "batch_get batch ''attention_mask'' = Inr attention_mask"
      and c: "get_embed fw (model self) input_ids attention_mask = Inr block"
    by (auto simp: embeds_to_def)
  from Cons.IH [of "acc @ [block]"] Cons.prems
  obtain blocks where "predict_loop fw self its (acc @ [block]) = Inr blocks" by auto
  with a b c show ?case by (simp add: it)
qed




lemma extract_ids_Inr:
  "get_split dataset ''test'' = Inr test \<Longrightarrow> extract_ids dataset id_col = get_column test id_col"
  by (simp add: extract_ids_def)


















text \<open>
  \<open>predict\<close> does return: on a test split with at least one row and the three columns,
  with a positive evaluation batch size, a \<open>get_embed\<close> that yields blocks of one row
  width and a saving hook that succeeds. (On a split with no rows there is no batch,
  and \<open>np.vstack\<close> of no block raises.)
\<close>

lemma predict_returns:
  assumes load: "load_dataset hooks self dataset_dir (Some [''input_ids'', ''attention_mask''])
                 (logger_info fw ''Loading data'' w) = (Inr dataset, w1)"
    and test: "get_split dataset ''test'' = Inr test"
    and wf: "wf_split test"
    and n0: "0 < num_rows test"
    and bs0: "0 < eval_batch_size self"
    and idc: "get_column test id_col = Inr ids"
    and i1: "get_column test ''input_ids'' = Inr input_ids"
    and m1: "get_column test ''attention_mask'' = Inr attention_mask"
    and self': "self' = self\<lparr>model := model_eval fw (model_to fw (device self) (model self))\<rparr>"
    and emb: "\<forall>ins masks. \<exists>block. get_embed fw (model self') ins masks = Inr block
                 \<and> (\<forall>r \<in> set block. length r = d)"
    and save: "\<forall>res v. \<exists>v'. save_inference_results hooks self' res out_dir v = (Inr (), v')"
  shows "\<exists>embs w'. predict hooks fw self dataset_dir out_dir id_col w = (Inr embs, self', w')"
proof -
  let ?bs = "nat (eval_batch_size self)"
  let ?its = "List.enumerate 0 (map (collate test) (chunks ?bs [0..<num_rows test]))"
  have "\<exists>block. embeds_to fw (model self') batch block"
    if "batch \<in> snd ` set ?its" for batch
  proof -
    from that obtain idxs where b: "batch = collate test idxs"
      by (auto simp: in_set_enumerate_eq)
    from emb obtain block where
      "get_embed fw (model self') (map (\<lambda>i. input_ids ! i) idxs)
         (map (\<lambda>i. attention_mask ! i) idxs) = Inr block" by blast
    then show ?thesis
      by (auto simp: embeds_to_def b batch_get_collate i1 m1)
  qed
  then have "\<forall>batch \<in> snd ` set ?its. \<exists>block. embeds_to fw (model self') batch block" by blast
  from predict_loop_total [OF this, of "[]"] obtain blocks
    where loop: "predict_loop fw self' ?its [] = Inr blocks" by blast
  from predict_loop_Inr [OF loop]
  have all2: "list_all2 (embeds_to fw (model self'))
                (map (collate test) (chunks ?bs [0..<num_rows test])) blocks"
    by (simp add: map_snd_enumerate)
  from n0 bs0 have "chunks ?bs [0..<num_rows test] \<noteq> []" by (simp add: chunks_eq_Nil)
  with all2 have ne: "blocks \<noteq> []" by (auto simp: list_all2_Nil2)
  have "length r = d" if "r \<in> set (concat blocks)" for r
  proof -
    from that obtain block where bl: "block \<in> set blocks" and r: "r \<in> set block" by auto
    from bl all2 obtain batch where "embeds_to fw (model self') batch block"
      by (auto simp: list_all2_conv_all_nth in_set_conv_nth)
    then obtain ins masks where "get_embed fw (model self') ins masks = Inr block"
      by (auto simp: embeds_to_def)
    with emb r show ?thesis by (metis Inr_inject)
  qed
  with ne have vs: "vstack blocks = Inr (concat blocks)"
    by (simp add: vstack_def)
  from save obtain v' where
    sv: "save_inference_results hooks self' (concat blocks, ids) out_dir
           (logger_info fw ''Finished inference'' (logger_info fw ''Starting inference'' w1))
         = (Inr (), v')" by blast
  from test idc have ex: "extract_ids dataset id_col = Inr ids" by (simp add: extract_ids_Inr)
  have "predict hooks fw self dataset_dir out_dir id_col w = (Inr (concat blocks), self', v')"
    using load test bs0 ex loop vs sv
    by (simp add: predict_def Let_def new_DataLoader_def dataloader_iter_def self' [symmetric])
  then show ?thesis by blast
qed


section \<open>Softmax and the metric\<close>

text \<open>
  Claim C2 fails on the code. Take the logits of one example with two equal scores
  \<open>z\<close>, in any arithmetic where \<open>exp (z - max z z)\<close> is \<open>one\<close> and \<open>one / one\<close> is \<open>one\<close>,
  as in float64 for every finite \<open>z\<close>. The maximum subtracted is the one of the whole
  array and the divisor of an entry is the sum down its column, here the entry
  itself: \<open>softmax\<close> returns the row \<open>[one, one]\<close>, which sums to two and not to one.
\<close>

theorem softmax_one_example:
  assumes "a_exp ar (a_sub ar z (a_max ar z z)) = one"
    and "a_div ar one one = one"
  shows "softmax ar [[z, z]] = Inr [[one, one]]"
  using assms by (simp add: softmax_def np_max_def sum_axis0_def)

theorem softmax_one_example_witness:
  "a_exp real_arith (a_sub real_arith 0 (a_max real_arith 0 0)) = 1
   \<and> a_div real_arith 1 1 = 1
   \<and> softmax real_arith [[0, 0]] = Inr [[1, 1]]
   \<and> sum_list [1, 1 :: real] = 2"
proof -
  have 1: "a_exp real_arith (a_sub real_arith 0 (a_max real_arith 0 0)) = 1"
    by (simp add: real_arith_def)
  have 2: "a_div real_arith 1 1 = 1" by (simp add: real_arith_def)
  from softmax_one_example [OF 1 2] 1 2 show ?thesis by simp
qed

text \<open>
  Claim C8. Logits with no entry are an array with no row or an array of rows with no
  entry. On either, in every arithmetic and so for every division operator, \<open>softmax\<close>
  ends in the ValueError of \<open>np.max\<close>: it is raised on line 23, before anything is
  exponentiated, summed or divided, so no division by zero is reached. \<open>compute_f1\<close>
  passes the exception on without calling the metric: the outcome on empty logits is
  this one defined exception.
\<close>

theorem compute_f1_empty_logits:
  "softmax ar [] = Inl (ValueError ''zero-size array to reduction operation maximum which has no identity'')
   \<and> softmax ar (replicate n [])
       = Inl (ValueError ''zero-size array to reduction operation maximum which has no identity'')
   \<and> softmax (ar\<lparr>a_div := d\<rparr>) [] = softmax ar []
   \<and> softmax (ar\<lparr>a_div := d\<rparr>) (replicate n []) = softmax ar (replicate n [])
   \<and> compute_f1 ar load_metric ([], labels)
       = (case load_metric ''f1'' of
            Inl e \<Rightarrow> Inl e
          | Inr metric \<Rightarrow>
              Inl (ValueError ''zero-size array to reduction operation maximum which has no identity''))
   \<and> compute_f1 ar load_metric (replicate n [], labels)
       = (case load_metric ''f1'' of
            Inl e \<Rightarrow> Inl e
          | Inr metric \<Rightarrow>
              Inl (ValueError ''zero-size array to reduction operation maximum which has no identity''))"
  by (simp add: softmax_def np_max_def compute_f1_def split: sum.splits)

section \<open>Tokenization\<close>

























end
